theory Spec2Isabelle
  imports
    Main
    "HOL-Library.Word"
    "HOL-Library.Char_ord"
    "HOL-Library.List_Lexorder"
    "HOL-Library.AList"
    "HOL-Library.Multiset"
begin

section \<open>The object storage engine of ess-three (internal/storage/storage.go)\<close>

text \<open>
  The engine keeps everything in files below a base directory:
  \<^item> \<^verbatim>\<open><base>/<bucket>/objects/<key>\<close> holds the bytes of an object,
  \<^item> \<^verbatim>\<open><base>/<bucket>/metadata/<key>.json\<close> holds its \<^verbatim>\<open>ObjectMetadata\<close> record,
  \<^item> \<^verbatim>\<open><base>/<bucket>/multipart/<uploadID>/\<close> holds \<^verbatim>\<open>upload.json\<close>, and for
    every uploaded part \<^verbatim>\<open>part-NNNNN\<close> (bytes) and \<^verbatim>\<open>part-NNNNN.json\<close> (its
    \<^verbatim>\<open>Part\<close> record).

  The embedding keeps these three areas as the fields of a record \<open>store\<close>, addressed by the
  values the paths are built from. Conventions of the embedding:
  \<^item> distinct (bucket, key), (bucket, uploadID) and part numbers name distinct files
    (keys are clean, non-empty relative paths, as the HTTP router delivers them);
  \<^item> a record written with \<^verbatim>\<open>json.Encoder\<close> is read back unchanged by
    \<^verbatim>\<open>json.Decoder\<close> (Go's codec does so for strings that are valid UTF-8);
  \<^item> faults of the operating system (permissions, full disk) are not part of the model;
    the failures that depend on the stored state or on the input stream are;
  \<^item> every reading of the clock (\<^verbatim>\<open>time.Now()\<close>) is an explicit argument, in
    nanoseconds since the epoch, in the order the source reads it;
  \<^item> \<^verbatim>\<open>int64\<close> byte counts and offsets are \<open>int\<close>: no arithmetic on them can
    leave the 64-bit range for files that exist. Go's \<^verbatim>\<open>int\<close> has 64 bits on the
    platforms the engine is built for; the one addition that can overflow
    (\<^verbatim>\<open>startIdx + maxKeys\<close> in the listings) wraps explicitly;
  \<^item> \<^verbatim>\<open>sort.Slice\<close> is \<open>sort_key\<close>: both give the ascending order, and they can differ
    only in the order of elements with equal sort keys, which no result depends on
    (stored keys are distinct, and of the parts only the numbers are read).
\<close>

subsection \<open>Data model\<close>

type_synonym byte = "8 word"

text \<open>\<^verbatim>\<open>time.Time\<close>: nanoseconds since the Unix epoch.\<close>

type_synonym time = int

definition UnixNano :: "time \<Rightarrow> int" where
  "UnixNano t = t"

definition Unix :: "time \<Rightarrow> int" where
  "Unix t = t div 1000000000"

text \<open>
  \<^verbatim>\<open>type Part struct { PartNumber int; ETag string; Size int64 }\<close>.
  The fields \<^verbatim>\<open>ETag\<close> and \<^verbatim>\<open>Size\<close> are prefixed, since \<^verbatim>\<open>ObjectMetadata\<close>
  has fields of the same names.
\<close>

record Part =
  PartNumber :: int
  PartETag :: string
  PartSize :: int

text \<open>\<^verbatim>\<open>type MultipartUpload struct\<close>; fields shared with \<^verbatim>\<open>ObjectMetadata\<close> are prefixed.\<close>

record MultipartUpload =
  UploadID :: string
  UploadBucket :: string
  UploadKey :: string
  Created :: time
  UploadContentType :: string
  UploadMetadata :: "string \<rightharpoonup> string"

record ObjectMetadata =
  Key :: string
  Size :: int
  LastModified :: time
  ETag :: string
  ContentType :: string
  Metadata :: "string \<rightharpoonup> string"

record ListResult =
  Objects :: "ObjectMetadata list"
  IsTruncated :: bool
  NextMarker :: string
  NextContinuationToken :: string

text \<open>
  An \<^verbatim>\<open>io.Reader\<close> handed to the engine: the bytes it delivers, and whether it then ends
  with an error instead of \<^verbatim>\<open>io.EOF\<close>.
\<close>

record reader =
  delivered :: "byte list"
  read_error :: bool

text \<open>The directory of one multipart upload.\<close>

record upload_dir =
  upload_json :: MultipartUpload
  part_files :: "int \<rightharpoonup> byte list"
  part_metas :: "(int \<times> Part) list"

text \<open>
  The files below the base directory. The metadata area and the part records are
  association lists, because the source enumerates them (\<^verbatim>\<open>filepath.Walk\<close>,
  \<^verbatim>\<open>os.ReadDir\<close>); they are written with \<open>AList.update\<close>, which keeps one entry per file.
\<close>

record store =
  objects :: "(string \<times> string) \<rightharpoonup> byte list"
  metadata :: "((string \<times> string) \<times> ObjectMetadata) list"
  multipart :: "(string \<times> string) \<rightharpoonup> upload_dir"

text \<open>
  The errors of the engine are \<^verbatim>\<open>fmt.Errorf\<close> values; each constructor stands for one
  message of the source.
\<close>

datatype error =
    ObjectNotFound              \<comment> \<open>\<^verbatim>\<open>object not found: bucket/key\<close>\<close>
  | InvalidRange                \<comment> \<open>\<^verbatim>\<open>invalid range\<close>\<close>
  | FailedToReadMetadata        \<comment> \<open>\<^verbatim>\<open>failed to read metadata\<close>\<close>
  | FailedToWriteObjectData     \<comment> \<open>\<^verbatim>\<open>failed to write object data\<close>\<close>
  | FailedToWritePartData       \<comment> \<open>\<^verbatim>\<open>failed to write part data\<close>\<close>
  | UploadNotFound              \<comment> \<open>\<^verbatim>\<open>upload not found\<close>\<close>
  | FailedToOpenPart int        \<comment> \<open>\<^verbatim>\<open>failed to open part N\<close>\<close>
  | SliceBoundsPanic            \<comment> \<open>run-time panic: slice bounds out of range\<close>

subsection \<open>Reading objects\<close>


text \<open>
  \<^verbatim>\<open>GetObjectRange\<close>: the stream is the file after \<^verbatim>\<open>Seek(rangeStart, 0)\<close>, limited to
  \<^verbatim>\<open>rangeEnd-rangeStart+1\<close> bytes; the clamped bounds are returned with it.
\<close>

definition GetObjectRange ::
  "store \<Rightarrow> string \<Rightarrow> string \<Rightarrow> int \<Rightarrow> int \<Rightarrow>
     error + (byte list \<times> ObjectMetadata \<times> int \<times> int)" where
  "GetObjectRange fs bucket key rangeStart rangeEnd =
     (case objects fs (bucket, key) of
        None \<Rightarrow> Inl ObjectNotFound
      | Some content \<Rightarrow>
          (let fileSize = int (length content);
               rangeEnd' = (if rangeEnd < 0 \<or> rangeEnd \<ge> fileSize then fileSize - 1 else rangeEnd);
               rangeStart' = (if rangeStart < 0 then 0 else rangeStart)
           in if rangeStart' > rangeEnd' then Inl InvalidRange
              else (case map_of (metadata fs) (bucket, key) of
                      None \<Rightarrow> Inl FailedToReadMetadata
                    | Some meta \<Rightarrow>
                        Inr (take (nat (rangeEnd' - rangeStart' + 1)) (drop (nat rangeStart') content),
                             meta, rangeStart', rangeEnd'))))"

subsection \<open>Formatting (the \<^verbatim>\<open>fmt\<close> verbs the engine uses)\<close>

definition digit :: "nat \<Rightarrow> char" where
  "digit d = ''0123456789abcdef'' ! d"

function format_nat :: "nat \<Rightarrow> nat \<Rightarrow> string" where
  "format_nat b n =
     (if b < 2 then []
      else if n < b then [digit n]
      else format_nat b (n div b) @ [digit (n mod b)])"
  by pat_completeness auto
termination
  by (relation "measure (\<lambda>(b, n). n)") auto

text \<open>\<^verbatim>\<open>%d\<close> is \<open>format_int 10\<close>, \<^verbatim>\<open>%x\<close> is \<open>format_int 16\<close> (sign, then magnitude).\<close>

definition format_int :: "nat \<Rightarrow> int \<Rightarrow> string" where
  "format_int b i =
     (if i < 0 then CHR ''-'' # format_nat b (nat (- i)) else format_nat b (nat i))"

definition dquote :: char where
  "dquote = CHR 0x22"

text \<open>\<^verbatim>\<open>generateRandomID\<close>: \<^verbatim>\<open>fmt.Sprintf("%x", time.Now().UnixNano())\<close>.\<close>

definition generateRandomID :: "time \<Rightarrow> string" where
  "generateRandomID now = format_int 16 (UnixNano now)"

subsection \<open>Writing and deleting objects\<close>

text \<open>
  \<^verbatim>\<open>PutObject\<close>: \<^verbatim>\<open>os.Create\<close> truncates the object file and \<^verbatim>\<open>io.Copy\<close> writes into it
  what the reader delivers; when the reader ends with an error the function returns before
  the metadata file is touched. \<open>now1\<close> is the clock reading of the entity tag, \<open>now2\<close>
  that of \<^verbatim>\<open>LastModified\<close>.
\<close>

definition PutObject ::
  "store \<Rightarrow> string \<Rightarrow> string \<Rightarrow> reader \<Rightarrow> (string \<rightharpoonup> string) \<Rightarrow> string \<Rightarrow> time \<Rightarrow> time \<Rightarrow>
     (error + ObjectMetadata) \<times> store" where
  "PutObject fs bucket key data metadata' contentType now1 now2 =
     (let fs1 = fs\<lparr>objects := (objects fs)((bucket, key) \<mapsto> delivered data)\<rparr>;
          size' = int (length (delivered data))
      in if read_error data then (Inl FailedToWriteObjectData, fs1)
         else
           (let etag = dquote # format_int 10 size' @ ''-'' @ format_int 10 (Unix now1) @ [dquote];
                objMeta = \<lparr>Key = key, Size = size', LastModified = now2, ETag = etag,
                           ContentType = contentType, Metadata = metadata'\<rparr>
            in (Inr objMeta,
                fs1\<lparr>metadata := AList.update (bucket, key) objMeta (metadata fs1)\<rparr>)))"

definition HeadObject :: "store \<Rightarrow> string \<Rightarrow> string \<Rightarrow> error + ObjectMetadata" where
  "HeadObject fs bucket key =
     (case map_of (metadata fs) (bucket, key) of
        None \<Rightarrow> Inl ObjectNotFound
      | Some meta \<Rightarrow> Inr meta)"

definition DeleteObject :: "store \<Rightarrow> string \<Rightarrow> string \<Rightarrow> store" where
  "DeleteObject fs bucket key =
     fs\<lparr>objects := (objects fs)((bucket, key) := None),
        metadata := AList.delete (bucket, key) (metadata fs)\<rparr>"

subsection \<open>Listing\<close>

text \<open>\<^verbatim>\<open>strings.HasPrefix(s, prefix)\<close>.\<close>

definition HasPrefix :: "string \<Rightarrow> string \<Rightarrow> bool" where
  "HasPrefix s p = (length s \<ge> length p \<and> take (length p) s = p)"

text \<open>
  \<^verbatim>\<open>listAllObjects\<close>: walk the metadata directory of the bucket, keep the records whose
  key has the prefix, sort by key. Go compares strings bytewise, which is the lexicographic
  order on \<open>char list\<close>. \<^verbatim>\<open>sort.Slice\<close> leaves the order of records with equal keys
  open; \<open>sort_key\<close> keeps them in walk order.
\<close>

definition listAllObjects :: "store \<Rightarrow> string \<Rightarrow> string \<Rightarrow> ObjectMetadata list" where
  "listAllObjects fs bucket prefix' =
     sort_key Key
       (filter (\<lambda>meta. prefix' = '''' \<or> HasPrefix (Key meta) prefix')
          (map snd (filter (\<lambda>entry. fst (fst entry) = bucket) (metadata fs))))"

text \<open>
  The loop that looks for the resume index:
  \<^verbatim>\<open>for i, obj := range allObjects { if obj.Key > marker { startIdx = i; break } }\<close>
  with \<^verbatim>\<open>startIdx\<close> initialised to 0, so 0 is what remains when the loop runs out.
\<close>

fun resume_scan :: "nat \<Rightarrow> ObjectMetadata list \<Rightarrow> string \<Rightarrow> nat" where
  "resume_scan i [] marker = 0"
| "resume_scan i (obj # rest) marker =
     (if Key obj > marker then i else resume_scan (Suc i) rest marker)"

definition startIdx_of :: "ObjectMetadata list \<Rightarrow> string \<Rightarrow> nat" where
  "startIdx_of allObjects marker =
     (if marker \<noteq> '''' then resume_scan 0 allObjects marker else 0)"

text \<open>Addition of Go's 64-bit \<^verbatim>\<open>int\<close> wraps around.\<close>

definition wrap64 :: "int \<Rightarrow> int" where
  "wrap64 x = (x + 2 ^ 63) mod 2 ^ 64 - 2 ^ 63"

text \<open>
  The page of both listings: \<^verbatim>\<open>allObjects[startIdx:endIdx]\<close> panics when
  \<^verbatim>\<open>endIdx < startIdx\<close>, which a wrapped sum makes possible. The result is the page,
  \<^verbatim>\<open>isTruncated\<close> and the key of the last record of the page when truncated.
\<close>

definition page_of ::
  "ObjectMetadata list \<Rightarrow> string \<Rightarrow> int \<Rightarrow> error + (ObjectMetadata list \<times> bool \<times> string)" where
  "page_of allObjects marker maxKeys =
     (let maxKeys' = (if maxKeys \<le> 0 then 1000 else maxKeys);
          startIdx = startIdx_of allObjects marker;
          endIdx = wrap64 (int startIdx + maxKeys');
          isTruncated = (endIdx < int (length allObjects));
          endIdx' = (if endIdx > int (length allObjects) then int (length allObjects) else endIdx)
      in if endIdx' < int startIdx then Inl SliceBoundsPanic
         else
           (let pageObjects = take (nat endIdx' - startIdx) (drop startIdx allObjects);
                nextMarker = (if isTruncated \<and> length pageObjects > 0
                              then Key (last pageObjects) else '''')
            in Inr (pageObjects, isTruncated, nextMarker)))"

definition ListObjects :: "store \<Rightarrow> string \<Rightarrow> string \<Rightarrow> string \<Rightarrow> int \<Rightarrow> error + ListResult" where
  "ListObjects fs bucket prefix' marker maxKeys =
     (case page_of (listAllObjects fs bucket prefix') marker maxKeys of
        Inl e \<Rightarrow> Inl e
      | Inr (pageObjects, isTruncated, nextMarker) \<Rightarrow>
          Inr \<lparr>Objects = pageObjects, IsTruncated = isTruncated,
               NextMarker = nextMarker, NextContinuationToken = ''''\<rparr>)"

definition ListObjectsV2 :: "store \<Rightarrow> string \<Rightarrow> string \<Rightarrow> string \<Rightarrow> int \<Rightarrow> error + ListResult" where
  "ListObjectsV2 fs bucket prefix' continuationToken maxKeys =
     (case page_of (listAllObjects fs bucket prefix') continuationToken maxKeys of
        Inl e \<Rightarrow> Inl e
      | Inr (pageObjects, isTruncated, nextToken) \<Rightarrow>
          Inr \<lparr>Objects = pageObjects, IsTruncated = isTruncated,
               NextMarker = '''', NextContinuationToken = nextToken\<rparr>)"


text \<open>
  The stored metadata the engine itself produces: one record per (bucket, key), each
  carrying the key of its file, and no empty key.
\<close>

definition metadata_wf :: "store \<Rightarrow> bool" where
  "metadata_wf fs =
     (distinct (map fst (metadata fs)) \<and>
      list_all (\<lambda>entry. Key (snd entry) = snd (fst entry) \<and> snd (fst entry) \<noteq> '''') (metadata fs))"

subsection \<open>Multipart uploads\<close>

text \<open>
  \<^verbatim>\<open>multipartPath(bucket, key, uploadID)\<close> is \<^verbatim>\<open><base>/<bucket>/multipart/<uploadID>\<close>:
  the key is not part of the path.
\<close>

definition multipartPath :: "string \<Rightarrow> string \<Rightarrow> string \<Rightarrow> string \<times> string" where
  "multipartPath bucket key uploadID = (bucket, uploadID)"

text \<open>
  \<^verbatim>\<open>CreateMultipartUpload\<close>: three clock readings (\<^verbatim>\<open>UnixNano\<close> of the id, the one inside
  \<^verbatim>\<open>generateRandomID\<close>, and \<^verbatim>\<open>Created\<close>). \<^verbatim>\<open>MkdirAll\<close> keeps a directory that exists.
\<close>

definition CreateMultipartUpload ::
  "store \<Rightarrow> string \<Rightarrow> string \<Rightarrow> string \<Rightarrow> (string \<rightharpoonup> string) \<Rightarrow> time \<Rightarrow> time \<Rightarrow> time \<Rightarrow>
     MultipartUpload \<times> store" where
  "CreateMultipartUpload fs bucket key contentType metadata' now1 now2 now3 =
     (let uploadID = format_int 10 (UnixNano now1) @ ''-'' @ generateRandomID now2;
          upload = \<lparr>UploadID = uploadID, UploadBucket = bucket, UploadKey = key, Created = now3,
                    UploadContentType = contentType, UploadMetadata = metadata'\<rparr>;
          mpPath = multipartPath bucket key uploadID;
          dir = (case multipart fs mpPath of
                   None \<Rightarrow> \<lparr>upload_json = upload, part_files = Map.empty, part_metas = []\<rparr>
                 | Some d \<Rightarrow> d\<lparr>upload_json := upload\<rparr>)
      in (upload, fs\<lparr>multipart := (multipart fs)(mpPath \<mapsto> dir)\<rparr>))"

text \<open>
  \<^verbatim>\<open>UploadPart\<close>: the MD5 digest in hexadecimal (\<^verbatim>\<open>crypto/md5\<close>, \<^verbatim>\<open>encoding/hex\<close>) is
  the parameter \<open>md5hex\<close>.
\<close>

definition UploadPart ::
  "(byte list \<Rightarrow> string) \<Rightarrow> store \<Rightarrow> string \<Rightarrow> string \<Rightarrow> string \<Rightarrow> int \<Rightarrow> reader \<Rightarrow>
     (error + Part) \<times> store" where
  "UploadPart md5hex fs bucket key uploadID partNumber data =
     (let mpPath = multipartPath bucket key uploadID
      in case multipart fs mpPath of
           None \<Rightarrow> (Inl UploadNotFound, fs)
         | Some d \<Rightarrow>
             (let d1 = d\<lparr>part_files := (part_files d)(partNumber \<mapsto> delivered data)\<rparr>
              in if read_error data
                 then (Inl FailedToWritePartData, fs\<lparr>multipart := (multipart fs)(mpPath \<mapsto> d1)\<rparr>)
                 else
                   (let part = \<lparr>PartNumber = partNumber, PartETag = md5hex (delivered data),
                                PartSize = int (length (delivered data))\<rparr>;
                        d2 = d1\<lparr>part_metas := AList.update partNumber part (part_metas d1)\<rparr>
                    in (Inr part, fs\<lparr>multipart := (multipart fs)(mpPath \<mapsto> d2)\<rparr>))))"

text \<open>
  The concatenation loop of \<^verbatim>\<open>CompleteMultipartUpload\<close>: open the file of each part in
  turn and copy it to the end of the final file; the first part file that is missing ends
  the loop with an error, and the final file keeps what was copied so far.
\<close>

fun copy_parts ::
  "(int \<rightharpoonup> byte list) \<Rightarrow> Part list \<Rightarrow> byte list \<Rightarrow> int \<Rightarrow> (error + int) \<times> byte list" where
  "copy_parts files [] final totalSize = (Inr totalSize, final)"
| "copy_parts files (part # rest) final totalSize =
     (case files (PartNumber part) of
        None \<Rightarrow> (Inl (FailedToOpenPart (PartNumber part)), final)
      | Some bytes \<Rightarrow> copy_parts files rest (final @ bytes) (totalSize + int (length bytes)))"

text \<open>
  \<^verbatim>\<open>CompleteMultipartUpload\<close>: \<open>now1\<close> is the clock reading inside
  \<^verbatim>\<open>generateRandomID\<close>, \<open>now2\<close> that of \<^verbatim>\<open>LastModified\<close>. The loop reads only the part
  numbers of the sorted slice, so the order \<^verbatim>\<open>sort.Slice\<close> gives to equal part numbers
  cannot be observed.
\<close>

definition CompleteMultipartUpload ::
  "store \<Rightarrow> string \<Rightarrow> string \<Rightarrow> string \<Rightarrow> Part list \<Rightarrow> time \<Rightarrow> time \<Rightarrow>
     (error + ObjectMetadata) \<times> store" where
  "CompleteMultipartUpload fs bucket key uploadID parts now1 now2 =
     (let mpPath = multipartPath bucket key uploadID
      in case multipart fs mpPath of
           None \<Rightarrow> (Inl UploadNotFound, fs)
         | Some d \<Rightarrow>
             (let upload = upload_json d;
                  sorted' = sort_key PartNumber parts;
                  copied = copy_parts (part_files d) sorted' [] 0;
                  fs1 = fs\<lparr>objects := (objects fs)((bucket, key) \<mapsto> snd copied)\<rparr>
              in case fst copied of
                   Inl e \<Rightarrow> (Inl e, fs1)
                 | Inr totalSize \<Rightarrow>
                     (let etag = dquote # generateRandomID now1 @ ''-'' @
                                 format_int 10 (int (length parts)) @ [dquote];
                          objMeta = \<lparr>Key = key, Size = totalSize, LastModified = now2, ETag = etag,
                                     ContentType = UploadContentType upload,
                                     Metadata = UploadMetadata upload\<rparr>
                      in (Inr objMeta,
                          fs1\<lparr>metadata := AList.update (bucket, key) objMeta (metadata fs1),
                              multipart := (multipart fs1)(mpPath := None)\<rparr>))))"


definition AbortMultipartUpload :: "store \<Rightarrow> string \<Rightarrow> string \<Rightarrow> string \<Rightarrow> store" where
  "AbortMultipartUpload fs bucket key uploadID =
     fs\<lparr>multipart := (multipart fs)(multipartPath bucket key uploadID := None)\<rparr>"


subsection \<open>Stores and readers used in the examples\<close>

definition empty_store :: store where
  "empty_store = \<lparr>objects = Map.empty, metadata = [], multipart = Map.empty\<rparr>"

text \<open>A reader that delivers the given bytes and ends with \<^verbatim>\<open>io.EOF\<close>.\<close>

definition bytes_reader :: "byte list \<Rightarrow> reader" where
  "bytes_reader bs = \<lparr>delivered = bs, read_error = False\<rparr>"


text \<open>One object of five bytes at (b, k).\<close>

definition range_store :: store where
  "range_store =
     snd (PutObject empty_store ''b'' ''k'' (bytes_reader [10, 20, 30, 40, 50])
            Map.empty ''text/plain'' 0 0)"





text \<open>Three objects in bucket b, put under the keys a, c and b in this order.\<close>

definition list_store :: store where
  "list_store =
     (let fs1 = snd (PutObject empty_store ''b'' ''a'' (bytes_reader [1]) Map.empty ''text/plain'' 0 0);
          fs2 = snd (PutObject fs1 ''b'' ''c'' (bytes_reader [3]) Map.empty ''text/plain'' 0 0)
      in snd (PutObject fs2 ''b'' ''b'' (bytes_reader [2]) Map.empty ''text/plain'' 0 0))"

text \<open>One empty object at (b, e).\<close>

definition empty_object_store :: store where
  "empty_object_store =
     snd (PutObject empty_store ''b'' ''e'' (bytes_reader []) Map.empty ''text/plain'' 0 0)"

section \<open>Byte ranges\<close>

lemma range_store_object:
  "objects range_store (''b'', ''k'') = Some [10, 20, 30, 40, 50]"
  by (simp add: range_store_def PutObject_def Let_def empty_store_def bytes_reader_def)

lemma range_store_metadata:
  "map_of (metadata range_store) (''b'', ''k'') =
     Some \<lparr>Key = ''k'', Size = 5, LastModified = 0, ETag = [dquote, CHR ''5'', CHR ''-'', CHR ''0'', dquote],
           ContentType = ''text/plain'', Metadata = Map.empty\<rparr>"
  by (simp add: range_store_def PutObject_def Let_def empty_store_def bytes_reader_def
      format_int_def digit_def Unix_def)

text \<open>
  Claim C6. For a stored object with content \<open>P\<close> and its metadata record:
  for bounds with \<open>0 \<le> start \<le> end < |P|\<close>, \<^verbatim>\<open>GetObjectRange\<close> returns the bounds
  unchanged and the bytes \<open>P[start..end]\<close> inclusive (\<open>end - start + 1\<close> bytes, the
  \<open>i\<close>-th being \<open>P ! (start + i)\<close>); an end of \<open>-1\<close> or of at least \<open>|P|\<close> is read as
  \<open>|P| - 1\<close>; a negative start is read as 0; the call fails with \<open>InvalidRange\<close>
  exactly when the clamped start exceeds the clamped end, and so for every range of an
  empty object.
\<close>

theorem GetObjectRange_correct:
  assumes obj: "objects fs (bucket, key) = Some P"
      and md: "map_of (metadata fs) (bucket, key) = Some meta"
  shows "(0 \<le> start \<and> start \<le> end' \<and> end' < int (length P) \<longrightarrow>
            (\<exists>bs. GetObjectRange fs bucket key start end' = Inr (bs, meta, start, end') \<and>
                  int (length bs) = end' - start + 1 \<and>
                  (\<forall>i < length bs. bs ! i = P ! (nat start + i)))) \<and>
         (end' = - 1 \<or> end' \<ge> int (length P) \<longrightarrow>
            GetObjectRange fs bucket key start end' =
            GetObjectRange fs bucket key start (int (length P) - 1)) \<and>
         (start < 0 \<longrightarrow>
            GetObjectRange fs bucket key start end' = GetObjectRange fs bucket key 0 end') \<and>
         (GetObjectRange fs bucket key start end' = Inl InvalidRange \<longleftrightarrow>
            max 0 start > (if end' < 0 \<or> end' \<ge> int (length P) then int (length P) - 1 else end')) \<and>
         (P = [] \<longrightarrow> GetObjectRange fs bucket key start end' = Inl InvalidRange)"
  using obj md by (auto simp add: GetObjectRange_def Let_def max_def)

theorem GetObjectRange_correct_witness:
  "objects range_store (''b'', ''k'') = Some [10, 20, 30, 40, 50] \<and>
   (\<exists>bs. GetObjectRange range_store ''b'' ''k'' 1 3 =
           Inr (bs, \<lparr>Key = ''k'', Size = 5, LastModified = 0,
                     ETag = [dquote, CHR ''5'', CHR ''-'', CHR ''0'', dquote],
                     ContentType = ''text/plain'', Metadata = Map.empty\<rparr>, 1, 3) \<and>
         int (length bs) = 3 \<and>
         (\<forall>i < length bs. bs ! i = [10, 20, 30, 40, 50] ! (1 + i))) \<and>
   GetObjectRange range_store ''b'' ''k'' 2 (- 1) = GetObjectRange range_store ''b'' ''k'' 2 4 \<and>
   GetObjectRange range_store ''b'' ''k'' 2 9 = GetObjectRange range_store ''b'' ''k'' 2 4 \<and>
   GetObjectRange range_store ''b'' ''k'' (- 7) 1 = GetObjectRange range_store ''b'' ''k'' 0 1 \<and>
   GetObjectRange range_store ''b'' ''k'' 4 2 = Inl InvalidRange \<and>
   objects empty_object_store (''b'', ''e'') = Some [] \<and>
   GetObjectRange empty_object_store ''b'' ''e'' 0 (- 1) = Inl InvalidRange"
proof -
  have empty_object: "objects empty_object_store (''b'', ''e'') = Some []"
    by (simp add: empty_object_store_def PutObject_def Let_def empty_store_def bytes_reader_def)
  have empty_metadata: "map_of (metadata empty_object_store) (''b'', ''e'') =
      Some \<lparr>Key = ''e'', Size = 0, LastModified = 0,
             ETag = [dquote, CHR ''0'', CHR ''-'', CHR ''0'', dquote],
             ContentType = ''text/plain'', Metadata = Map.empty\<rparr>"
    by (simp add: empty_object_store_def PutObject_def Let_def empty_store_def bytes_reader_def
        format_int_def digit_def Unix_def)
  show ?thesis
    using GetObjectRange_correct [OF range_store_object range_store_metadata, of 1 3]
          GetObjectRange_correct [OF range_store_object range_store_metadata, of 2 "- 1"]
          GetObjectRange_correct [OF range_store_object range_store_metadata, of 2 9]
          GetObjectRange_correct [OF range_store_object range_store_metadata, of "- 7" 1]
          GetObjectRange_correct [OF range_store_object range_store_metadata, of 4 2]
          GetObjectRange_correct [OF empty_object empty_metadata, of 0 "- 1"]
          range_store_object empty_object
    by simp
qed

text \<open>
  Claim C10. For a stored object of size \<open>n\<close>, every start and every negative end bound
  (not only \<open>-1\<close>), \<^verbatim>\<open>GetObjectRange\<close> with that end bound is \<^verbatim>\<open>GetObjectRange\<close> with the
  end bound \<open>n - 1\<close>: a negative end means "to the end of the object".
\<close>

theorem GetObjectRange_negative_end:
  assumes "objects fs (bucket, key) = Some P" and "rangeEnd < 0"
  shows "GetObjectRange fs bucket key rangeStart rangeEnd =
         GetObjectRange fs bucket key rangeStart (int (length P) - 1)"
  using assms by (simp add: GetObjectRange_def Let_def)

theorem GetObjectRange_negative_end_witness:
  "objects range_store (''b'', ''k'') = Some [10, 20, 30, 40, 50] \<and> (- 5 :: int) < 0 \<and>
   GetObjectRange range_store ''b'' ''k'' 1 (- 5) = GetObjectRange range_store ''b'' ''k'' 1 4 \<and>
   (\<exists>meta. GetObjectRange range_store ''b'' ''k'' 1 (- 5) = Inr ([20, 30, 40, 50], meta, 1, 4))"
proof -
  have neg: "(- 5 :: int) < 0" by simp
  have "GetObjectRange range_store ''b'' ''k'' 1 (- 5) = GetObjectRange range_store ''b'' ''k'' 1 4"
    using GetObjectRange_negative_end [OF range_store_object neg, of 1] by simp
  moreover have "\<exists>meta. GetObjectRange range_store ''b'' ''k'' 1 4 = Inr ([20, 30, 40, 50], meta, 1, 4)"
    using range_store_object range_store_metadata by (simp add: GetObjectRange_def Let_def)
  ultimately show ?thesis using range_store_object by simp
qed

section \<open>Writing an object and reading it back\<close>





section \<open>Completing a multipart upload\<close>
















section \<open>What a multipart session is scoped to\<close>




section \<open>Entity tags\<close>




section \<open>The stored metadata stays well-formed\<close>

lemma list_all_update:
  "list_all P al \<Longrightarrow> P (k, v) \<Longrightarrow> list_all P (AList.update k v al)"
  by (induction al) auto

lemma metadata_wf_empty_store: "metadata_wf empty_store"
  by (simp add: metadata_wf_def empty_store_def)

lemma metadata_wf_PutObject:
  assumes "metadata_wf fs" and "key \<noteq> ''''"
  shows "metadata_wf (snd (PutObject fs bucket key data M C now1 now2))"
  using assms
  by (auto simp add: metadata_wf_def PutObject_def Let_def distinct_update intro!: list_all_update)

lemma metadata_wf_CompleteMultipartUpload:
  assumes "metadata_wf fs" and "key \<noteq> ''''"
  shows "metadata_wf (snd (CompleteMultipartUpload fs bucket key uploadID parts now1 now2))"
  using assms
  by (auto simp add: metadata_wf_def CompleteMultipartUpload_def Let_def distinct_update
      split: option.splits sum.splits intro!: list_all_update)

lemma metadata_wf_DeleteObject:
  assumes "metadata_wf fs"
  shows "metadata_wf (DeleteObject fs bucket key)"
proof -
  have "set (AList.delete (bucket, key) (metadata fs)) \<subseteq> set (metadata fs)"
    by (auto simp add: AList.delete_eq)
  with assms show ?thesis
    by (auto simp add: metadata_wf_def DeleteObject_def distinct_delete list_all_iff)
qed

lemma metadata_wf_multipart_steps:
  assumes "metadata_wf fs"
  shows "metadata_wf (snd (CreateMultipartUpload fs bucket key C M now1 now2 now3))"
    and "metadata_wf (snd (UploadPart md5hex fs bucket key uploadID partNumber data))"
    and "metadata_wf (AbortMultipartUpload fs bucket key uploadID)"
  using assms
  by (auto simp add: metadata_wf_def CreateMultipartUpload_def UploadPart_def
      AbortMultipartUpload_def Let_def split: option.splits)

section \<open>Listing and pagination\<close>




lemma resume_scan_none:
  "\<forall>obj\<in>set xs. \<not> marker < Key obj \<Longrightarrow> resume_scan i xs marker = 0"
  by (induction xs arbitrary: i) auto
















text \<open>
  Claim C5 is what the resume loop is written for, and the code misses one case of it:
  when no listed key is greater than the cursor the loop ends without assigning
  \<^verbatim>\<open>startIdx\<close>, which keeps its initial value 0, and the listing starts again from the
  first key instead of returning an empty page. With the keys a, b, c stored: the cursor
  \<^verbatim>\<open>c\<close> (the last key) gives the page a, b, c; and after the first page a, b (cursor
  \<^verbatim>\<open>b\<close>, truncated) and the deletion of c, the cursor \<^verbatim>\<open>b\<close> gives the page a, b again.
\<close>

theorem listing_restarts_when_no_key_follows_cursor:
  "map Key (listAllObjects list_store ''b'' '''') = [''a'', ''b'', ''c''] \<and>
   ListObjects list_store ''b'' '''' ''c'' 10 =
     Inr \<lparr>Objects = listAllObjects list_store ''b'' '''', IsTruncated = False,
           NextMarker = '''', NextContinuationToken = ''''\<rparr> \<and>
   ListObjectsV2 list_store ''b'' '''' ''c'' 10 =
     Inr \<lparr>Objects = listAllObjects list_store ''b'' '''', IsTruncated = False,
           NextMarker = '''', NextContinuationToken = ''''\<rparr> \<and>
   map Key (Objects (projr (ListObjects list_store ''b'' '''' '''' 2))) = [''a'', ''b''] \<and>
   IsTruncated (projr (ListObjects list_store ''b'' '''' '''' 2)) \<and>
   NextMarker (projr (ListObjects list_store ''b'' '''' '''' 2)) = ''b'' \<and>
   map Key (listAllObjects (DeleteObject list_store ''b'' ''c'') ''b'' '''') = [''a'', ''b''] \<and>
   ListObjects (DeleteObject list_store ''b'' ''c'') ''b'' '''' ''b'' 2 =
     Inr \<lparr>Objects = listAllObjects (DeleteObject list_store ''b'' ''c'') ''b'' '''',
           IsTruncated = False, NextMarker = '''', NextContinuationToken = ''''\<rparr>"
  by (simp add: list_store_def PutObject_def DeleteObject_def Let_def empty_store_def
      bytes_reader_def listAllObjects_def ListObjects_def ListObjectsV2_def page_of_def
      startIdx_of_def wrap64_def)

end
